theory Spec2Isabelle
  imports Main
begin

section \<open>Python values shared by the adapters\<close>

text \<open>
  Exceptions of the Python runtime and of the libraries the adapters call. A function that
  can raise returns \<open>error + 'a\<close> together with the world it leaves behind.
\<close>

datatype error =
    AttributeError
  | UnboundLocalError
  | TypeError
  | KeyError
  | HTTPError
  | SystemExit
  | PasswordSetError

datatype log_level = DEBUG | INFO | WARNING | ERROR

text \<open>
  A log entry is the level and the text of the message as the source writes it, with \<open>{}\<close>
  where a value is formatted in.
\<close>

type_synonym log_entry = "log_level \<times> string"

subsection \<open>\<open>str.split(sep)\<close> and \<open>sep.join\<close> for a one-character separator\<close>

text \<open>
  Python's \<open>s.split(sep=",")\<close> cuts at every comma and never returns the empty list:
  \<open>"".split(",")\<close> is \<open>[""]\<close> and \<open>"a,,b".split(",")\<close> is \<open>["a", "", "b"]\<close>.
\<close>

fun split_sep :: "char \<Rightarrow> string \<Rightarrow> string list" where
  "split_sep sep [] = [[]]"
| "split_sep sep (c # cs) =
     (if c = sep then [] # split_sep sep cs
      else (case split_sep sep cs of
              [] \<Rightarrow> [[c]]
            | x # xs \<Rightarrow> (c # x) # xs))"

fun join_sep :: "char \<Rightarrow> string list \<Rightarrow> string" where
  "join_sep sep [] = []"
| "join_sep sep [x] = x"
| "join_sep sep (x # y # ys) = x @ sep # join_sep sep (y # ys)"

section \<open>Firewall-B: the Sophos client\<close>

text \<open>
  Every call of the client is one GET carrying the login fragment and one action fragment.
  The action fragments the client builds are the empty one of the login check, the
  \<open>Get\<close> of the IPHost filtered by name and the \<open>Set operation="update"\<close> of the IPHost
  with its comma-joined \<open>ListOfIPAddresses\<close>.
\<close>

datatype sophos_request =
    NoAction
  | GetIPHost string
  | UpdateIPHost string string

text \<open>
  The firewall as the client sees it. \<open>iphosts\<close> are the IPHost elements the firewall
  returns for the configured name, each with the content of its \<open>ListOfIPAddresses\<close>
  child (\<open>None\<close>: the element has no such child). \<open>http_status\<close> is the status of the
  HTTP replies, \<open>update_code\<close> the \<open>code\<close> attribute of the \<open>Status\<close> element in the reply
  to an update; the firewall stores an update it answers with code 200 in the first
  resource of that name. \<open>requests\<close> records the calls issued, \<open>log\<close> the log entries.
\<close>

record sophos_fw =
  iphosts :: "string option list"
  http_status :: nat
  update_code :: string
  requests :: "sophos_request list"
  log :: "log_entry list"

datatype sophos_response =
    LoginReply
  | IPHostReply "string option list"
  | StatusReply string

fun serve :: "sophos_request \<Rightarrow> sophos_fw \<Rightarrow> sophos_response \<times> sophos_fw" where
  "serve NoAction fw = (LoginReply, fw)"
| "serve (GetIPHost n) fw = (IPHostReply (iphosts fw), fw)"
| "serve (UpdateIPHost n csv) fw =
     (StatusReply (update_code fw),
      if update_code fw = ''200''
      then fw\<lparr>iphosts := (case iphosts fw of [] \<Rightarrow> [] | h # hs \<Rightarrow> Some csv # hs)\<rparr>
      else fw)"

text \<open>\<open>_make_api_call\<close>: log, GET, \<open>raise_for_status\<close> (4xx and 5xx raise).\<close>

definition make_api_call ::
  "sophos_request \<Rightarrow> sophos_fw \<Rightarrow> (error + sophos_response) \<times> sophos_fw" where
  "make_api_call request_xml fw =
     (let fw1 = fw\<lparr>log := log fw @ [(DEBUG, ''Making request: {}'')],
                   requests := requests fw @ [request_xml]\<rparr>
      in if 400 \<le> http_status fw1 \<and> http_status fw1 < 600 then (Inl HTTPError, fw1)
         else (case serve request_xml fw1 of (r, fw2) \<Rightarrow> (Inr r, fw2)))"

text \<open>
  The text of an element, as \<open>xml.etree.ElementTree\<close> gives it: \<open>None\<close> for an element
  without content.
\<close>

definition element_text :: "string \<Rightarrow> string option" where
  "element_text s = (if s = [] then None else Some s)"

text \<open>
  \<open>_get_blocked_ips\<close>. \<open>exit()\<close> raises \<open>SystemExit\<close>; \<open>find\<close> returning \<open>None\<close> and a
  \<open>text\<close> that is \<open>None\<close> both end in an \<open>AttributeError\<close>.
\<close>

definition get_blocked_ips ::
  "string \<Rightarrow> sophos_fw \<Rightarrow> (error + string list) \<times> sophos_fw" where
  \<open>get_blocked_ips BLOCK_LIST_NAME fw =
     (case make_api_call (GetIPHost BLOCK_LIST_NAME) fw of
        (Inl e, fw1) \<Rightarrow> (Inl e, fw1)
      | (Inr r, fw1) \<Rightarrow>
          (case r of
             IPHostReply hosts \<Rightarrow>
               (let fw2 = (if length hosts > 1
                           then fw1\<lparr>log := log fw1 @ [(WARNING, ''Multiple IPHosts with Name equaling "{}" found. Using first one. Please verify firewall is setup according to documentation.'')]\<rparr>
                           else if length hosts = 0
                           then fw1\<lparr>log := log fw1 @ [(ERROR, ''No IPHost with Name equaling "{}" found. Please verify firewall is setup according to documentation.'')]\<rparr>
                           else fw1)
                in (case hosts of
                      [] \<Rightarrow> (Inl SystemExit, fw2)
                    | h # _ \<Rightarrow>
                        (case h of
                           None \<Rightarrow> (Inl AttributeError, fw2)
                         | Some s \<Rightarrow>
                             (case element_text s of
                                None \<Rightarrow> (Inl AttributeError, fw2)
                              | Some t \<Rightarrow>
                                  (Inr (split_sep (CHR '','') t),
                                   fw2\<lparr>log := log fw2 @ [(DEBUG, ''Retrieved currently blocked ips: {}'')]\<rparr>)))))
           | _ \<Rightarrow> (Inl AttributeError, fw1)))\<close>

text \<open>\<open>_update_blocked_ips\<close>: push the whole list, read the embedded status code.\<close>

definition update_blocked_ips ::
  "string \<Rightarrow> string list \<Rightarrow> sophos_fw \<Rightarrow> (error + bool) \<times> sophos_fw" where
  \<open>update_blocked_ips BLOCK_LIST_NAME ips_to_block fw =
     (let ip_csv = join_sep (CHR '','') ips_to_block
      in case make_api_call (UpdateIPHost BLOCK_LIST_NAME ip_csv) fw of
           (Inl e, fw1) \<Rightarrow> (Inl e, fw1)
         | (Inr r, fw1) \<Rightarrow>
             (case r of
                StatusReply status_code \<Rightarrow>
                  (if status_code \<noteq> ''200''
                   then (Inr False, fw1\<lparr>log := log fw1 @ [(ERROR, ''Error updating IP list of IPHost "{}". (Status Code: {} - Message: {})'')]\<rparr>)
                   else (Inr True, fw1))
              | _ \<Rightarrow> (Inl AttributeError, fw1)))\<close>

text \<open>
  \<open>_validate_ip_address\<close>. The parser \<open>ipaddress.ip_address\<close> belongs to the standard
  library; it is the parameter \<open>ip_address\<close>, true where the library returns an address
  and false where it raises \<open>ValueError\<close>.
\<close>

definition validate_ip_address :: "(string \<Rightarrow> bool) \<Rightarrow> string \<Rightarrow> bool" where
  "validate_ip_address ip_address ip = (if ip_address ip then True else False)"

text \<open>\<open>_block_ip\<close> and \<open>_unblock_ip\<close>.\<close>

definition block_ip ::
  "(string \<Rightarrow> bool) \<Rightarrow> string \<Rightarrow> string \<Rightarrow> sophos_fw \<Rightarrow> (error + string list) \<times> sophos_fw" where
  "block_ip ip_address BLOCK_LIST_NAME ip fw =
     (if validate_ip_address ip_address ip then
        (case get_blocked_ips BLOCK_LIST_NAME fw of
           (Inl e, fw1) \<Rightarrow> (Inl e, fw1)
         | (Inr blocked_ips, fw1) \<Rightarrow>
             if ip \<notin> set blocked_ips then
               (case update_blocked_ips BLOCK_LIST_NAME (blocked_ips @ [ip]) fw1 of
                  (Inl e, fw2) \<Rightarrow> (Inl e, fw2)
                | (Inr ok, fw2) \<Rightarrow> if ok then (Inr [ip], fw2) else (Inr [], fw2))
             else (Inr [], fw1))
      else (Inr [], fw))"

definition unblock_ip ::
  "(string \<Rightarrow> bool) \<Rightarrow> string \<Rightarrow> string \<Rightarrow> sophos_fw \<Rightarrow> (error + string list) \<times> sophos_fw" where
  "unblock_ip ip_address BLOCK_LIST_NAME ip fw =
     (if validate_ip_address ip_address ip then
        (case get_blocked_ips BLOCK_LIST_NAME fw of
           (Inl e, fw1) \<Rightarrow> (Inl e, fw1)
         | (Inr blocked_IPs, fw1) \<Rightarrow>
             if ip \<in> set blocked_IPs then
               (case update_blocked_ips BLOCK_LIST_NAME (remove1 ip blocked_IPs) fw1 of
                  (Inl e, fw2) \<Rightarrow> (Inl e, fw2)
                | (Inr ok, fw2) \<Rightarrow> if ok then (Inr [ip], fw2) else (Inr [], fw2))
             else (Inr [], fw1))
      else (Inr [], fw))"

text \<open>
  The dotted-quad literals of IPv4, which the library's parser accepts: four fields
  separated by dots, each of one to three ASCII digits, without a leading zero when longer
  than one digit, and of value at most 255. It instantiates \<open>ip_address\<close> on concrete
  inputs.
\<close>

definition is_digit :: "char \<Rightarrow> bool" where
  "is_digit c = (c \<in> set ''0123456789'')"

definition decimal :: "string \<Rightarrow> nat" where
  "decimal s = foldl (\<lambda>n c. 10 * n + (of_char c - 48)) 0 s"

definition octet :: "string \<Rightarrow> bool" where
  "octet s =
     (if s = [] then False
      else if \<not> list_all is_digit s then False
      else if length s > 3 then False
      else if length s > 1 \<and> hd s = CHR ''0'' then False
      else decimal s \<le> 255)"

definition ipv4_literal :: "string \<Rightarrow> bool" where
  "ipv4_literal s =
     (let octets = split_sep (CHR ''.'') s
      in length octets = 4 \<and> list_all octet octets)"

subsection \<open>The objects handed to the verbs\<close>

text \<open>
  The classes \<open>VectraHost\<close>, \<open>VectraDetection\<close> and \<open>VectraStaticIP\<close> come from the
  interface module; the records carry the attributes the clients read. The dictionary
  \<open>blocked_elements\<close> maps a client's name to the addresses it blocked. The clients never
  read an attribute of an account, so an account is a value of any type.
\<close>

record VectraHost =
  host_ip :: string
  host_name :: string
  host_blocked_elements :: "string \<rightharpoonup> string list"

record VectraDetection =
  detection_id :: nat
  detection_dst_ips :: "string list"
  detection_blocked_elements :: "string \<rightharpoonup> string list"

record VectraStaticIP =
  static_dst_ips :: "string list"

subsection \<open>The verbs of the Sophos client\<close>

definition sophos_block_host ::
  "(string \<Rightarrow> bool) \<Rightarrow> string \<Rightarrow> VectraHost \<Rightarrow> sophos_fw \<Rightarrow> (error + string list) \<times> sophos_fw" where
  "sophos_block_host ip_address BLOCK_LIST_NAME host fw =
     block_ip ip_address BLOCK_LIST_NAME (host_ip host) fw"

definition sophos_unblock_host ::
  "(string \<Rightarrow> bool) \<Rightarrow> string \<Rightarrow> VectraHost \<Rightarrow> sophos_fw \<Rightarrow> (error + string list) \<times> sophos_fw" where
  "sophos_unblock_host ip_address BLOCK_LIST_NAME host fw =
     unblock_ip ip_address BLOCK_LIST_NAME (host_ip host) fw"

definition sophos_groom_host ::
  "VectraHost \<Rightarrow> sophos_fw \<Rightarrow> (error + string list) \<times> sophos_fw" where
  "sophos_groom_host host fw =
     (Inr [], fw\<lparr>log := log fw @ [(WARNING, ''Sophos client does not implement host grooming'')]\<rparr>)"

definition sophos_block_account ::
  "'account \<Rightarrow> sophos_fw \<Rightarrow> (error + string list) \<times> sophos_fw" where
  "sophos_block_account account fw =
     (Inr [], fw\<lparr>log := log fw @ [(WARNING, ''Sophos client does not implement account-based blocking'')]\<rparr>)"

definition sophos_unblock_account ::
  "'account \<Rightarrow> sophos_fw \<Rightarrow> (error + string list) \<times> sophos_fw" where
  "sophos_unblock_account account fw =
     (Inr [], fw\<lparr>log := log fw @ [(WARNING, ''Sophos client does not implement account-based blocking'')]\<rparr>)"

definition sophos_block_detection ::
  "VectraDetection \<Rightarrow> sophos_fw \<Rightarrow> (error + string list) \<times> sophos_fw" where
  "sophos_block_detection detection fw =
     (Inr [], fw\<lparr>log := log fw @ [(WARNING, ''Sophos client does not implement detection-based blocking'')]\<rparr>)"

definition sophos_unblock_detection ::
  "VectraDetection \<Rightarrow> sophos_fw \<Rightarrow> (error + string list) \<times> sophos_fw" where
  "sophos_unblock_detection detection fw = (Inr [], fw)"

definition sophos_block_static_dst_ips ::
  "VectraStaticIP \<Rightarrow> sophos_fw \<Rightarrow> (error + string list) \<times> sophos_fw" where
  "sophos_block_static_dst_ips ips fw =
     (Inr [], fw\<lparr>log := log fw @ [(WARNING, ''Sophos client does not implement static IP-based blocking'')]\<rparr>)"

definition sophos_unblock_static_dst_ips ::
  "VectraStaticIP \<Rightarrow> sophos_fw \<Rightarrow> (error + string list) \<times> sophos_fw" where
  "sophos_unblock_static_dst_ips ips fw =
     (Inr [], fw\<lparr>log := log fw @ [(WARNING, ''Sophos client does not implement static IP-based blocking'')]\<rparr>)"

section \<open>The credential resolver\<close>

text \<open>
  The world of the resolver and of the PAN client. \<open>keyring\<close> is the credential store,
  keyed by system and key; \<open>keyring_locked\<close> says that \<open>keyring.set_password\<close> raises
  \<open>PasswordSetError\<close>. \<open>answers\<close> are the operator's replies to the coming prompts
  (\<open>None\<close>: the prompt was cancelled, also when no reply is left). \<open>keygen_key\<close> is the key
  in a firewall's reply to a keygen login, by URL, user and password (\<open>None\<close>: the reply
  holds no key); \<open>post_status\<close> is the status a firewall gives a user-id POST, by URL.
  \<open>events\<close> records the prompts, the prints and the HTTP calls, \<open>logged\<close> the log entries.
\<close>

datatype event =
    Prompt string string
  | Print string
  | KeygenPost string "string option" "string option"
  | UserIdPost string string string

record world =
  keyring :: "string \<times> string \<rightharpoonup> string"
  keyring_locked :: bool
  answers :: "string option list"
  keygen_key :: "string \<Rightarrow> string option \<Rightarrow> string option \<Rightarrow> string option"
  post_status :: "string \<Rightarrow> nat"
  events :: "event list"
  logged :: "log_entry list"

text \<open>
  The argument \<open>modify\<close>: the constructor hands on \<open>kwargs["modify"]\<close>, which
  \<open>_get_password\<close> indexes at 0 (store the keys) and 1 (update the keys); the default of
  \<open>_get_api_token\<close> is the boolean \<open>False\<close>. A pair is true as a condition, whatever it
  holds; indexing a boolean raises \<open>TypeError\<close>.
\<close>

datatype modify_arg = Flag bool | Pair bool bool

fun truthy :: "modify_arg \<Rightarrow> bool" where
  "truthy (Flag b) = b"
| "truthy (Pair store_keys update_keys) = True"

text \<open>\<open>questionary.password(...).ask()\<close>\<close>

definition ask :: "string \<Rightarrow> string \<Rightarrow> world \<Rightarrow> string option \<times> world" where
  "ask system key w =
     (case answers w of
        [] \<Rightarrow> (None, w\<lparr>events := events w @ [Prompt system key]\<rparr>)
      | a # as \<Rightarrow> (a, w\<lparr>answers := as, events := events w @ [Prompt system key]\<rparr>))"

text \<open>\<open>_get_password\<close> of \<open>common.py\<close>\<close>

definition get_password ::
  "string \<Rightarrow> string \<Rightarrow> modify_arg \<Rightarrow> world \<Rightarrow> (error + string option) \<times> world" where
  "get_password system key modify w =
     (case modify of
        Flag b \<Rightarrow> (Inl TypeError, w)
      | Pair store_keys update_keys \<Rightarrow>
          (let password = keyring w (system, key);
               (password, w1) = (if update_keys \<or> password = None then ask system key w
                                 else (password, w));
               w2 = (if store_keys then
                       (case password of
                          None \<Rightarrow> w1
                        | Some p \<Rightarrow>
                            if keyring_locked w1
                            then w1\<lparr>events := events w1 @ [Print ''Failed to store password'']\<rparr>
                            else w1\<lparr>keyring := (keyring w1)((system, key) \<mapsto> p)\<rparr>)
                     else w1)
           in (Inr password, w2)))"

section \<open>Firewall-A: the PAN client\<close>

text \<open>
  The module \<open>pan_config\<close> is configuration: its constants are the fields of
  \<open>pan_config\<close>. The client holds one firewall (URL and API key) for each URL.
\<close>

record pan_config =
  URLS :: "string list"
  VERIFY_SSL :: bool
  INTERNAL_BLOCK_TAG :: string
  EXTERNAL_BLOCK_TAG :: string

record firewall =
  url :: string
  api_key :: string

record Client =
  name :: string
  firewalls :: "firewall list"
  verify :: bool
  internal_block_tag :: string
  external_block_tag :: string

text \<open>\<open>_get_keyring_password\<close>: \<open>None\<close> and the empty string both mean an unset entry.\<close>

definition get_keyring_password :: "string \<Rightarrow> string \<Rightarrow> world \<Rightarrow> string option" where
  "get_keyring_password system username w =
     (let response = keyring w (system, username)
      in if response = None \<or> response = Some [] then None else response)"

text \<open>
  \<open>_get_api_token\<close>. The local \<open>payload\<close> is bound in the branch only; evaluating the
  arguments of \<open>requests.post\<close> without it raises \<open>UnboundLocalError\<close> before any call is
  made. A reply without the key raises \<open>KeyError\<close>.
\<close>

definition get_api_token ::
  "string \<Rightarrow> modify_arg \<Rightarrow> world \<Rightarrow> (error + string) \<times> world" where
  "get_api_token pan_url modify w =
     (let api_token = get_keyring_password pan_url ''API_Key'' w
      in if api_token = None \<or> truthy modify then
           (case get_password pan_url ''username'' modify w of
              (Inl e, w1) \<Rightarrow> (Inl e, w1)
            | (Inr username, w1) \<Rightarrow>
                (case get_password pan_url ''password'' modify w1 of
                   (Inl e, w2) \<Rightarrow> (Inl e, w2)
                 | (Inr password, w2) \<Rightarrow>
                     (let w3 = w2\<lparr>events := events w2 @ [KeygenPost pan_url username password]\<rparr>
                      in case keygen_key w3 pan_url username password of
                           None \<Rightarrow> (Inl KeyError, w3)
                         | Some api_token \<Rightarrow>
                             if keyring_locked w3 then (Inl PasswordSetError, w3)
                             else (Inr api_token,
                                   w3\<lparr>keyring := (keyring w3)((pan_url, ''API_Key'') \<mapsto> api_token)\<rparr>))))
         else (Inl UnboundLocalError, w))"

text \<open>\<open>__init__\<close>: one token per URL, in order; the first exception ends the construction.\<close>

fun get_firewalls ::
  "string list \<Rightarrow> modify_arg \<Rightarrow> world \<Rightarrow> (error + firewall list) \<times> world" where
  "get_firewalls [] modify w = (Inr [], w)"
| "get_firewalls (u # us) modify w =
     (case get_api_token u modify w of
        (Inl e, w1) \<Rightarrow> (Inl e, w1)
      | (Inr k, w1) \<Rightarrow>
          (case get_firewalls us modify w1 of
             (Inl e, w2) \<Rightarrow> (Inl e, w2)
           | (Inr fs, w2) \<Rightarrow> (Inr (\<lparr>url = u, api_key = k\<rparr> # fs), w2)))"

definition init :: "pan_config \<Rightarrow> modify_arg \<Rightarrow> world \<Rightarrow> (error + Client) \<times> world" where
  "init cfg modify w =
     (case get_firewalls (URLS cfg) modify w of
        (Inl e, w1) \<Rightarrow> (Inl e, w1)
      | (Inr fs, w1) \<Rightarrow>
          (Inr \<lparr>name = ''PAN Client'', firewalls = fs, verify = VERIFY_SSL cfg,
                internal_block_tag = INTERNAL_BLOCK_TAG cfg,
                external_block_tag = EXTERNAL_BLOCK_TAG cfg\<rparr>, w1))"

text \<open>
  \<open>_register_address\<close> and \<open>_unregister_address\<close>: one entry per address in the command,
  one POST with the firewall's key, and the addresses back on status 200 or 201.
\<close>

definition entry :: "string \<Rightarrow> string \<Rightarrow> string" where
  \<open>entry ip tag = ''<entry ip="'' @ ip @ ''"><tag><member>'' @ tag @ ''</member></tag></entry>''\<close>

definition register_command :: "string list \<Rightarrow> string \<Rightarrow> string" where
  "register_command ip_addresses tag =
     ''<uid-message><version>1.0</version><type>update</type><payload><register>''
     @ concat (map (\<lambda>ip. entry ip tag) ip_addresses)
     @ ''</register></payload></uid-message>''"

definition unregister_command :: "string list \<Rightarrow> string \<Rightarrow> string" where
  "unregister_command ip_addresses tag =
     ''<uid-message><version>1.0</version><type>update</type><payload><unregister>''
     @ concat (map (\<lambda>ip. entry ip tag) ip_addresses)
     @ ''</unregister></payload></uid-message>''"

definition register_address ::
  "Client \<Rightarrow> firewall \<Rightarrow> string list \<Rightarrow> string \<Rightarrow> world \<Rightarrow> (error + string list) \<times> world" where
  "register_address self fw ip_addresses tag w =
     (let command = register_command ip_addresses tag;
          w1 = w\<lparr>events := events w @ [UserIdPost (url fw @ ''/api/'') (api_key fw) command]\<rparr>;
          status_code = post_status w1 (url fw)
      in if status_code \<in> set [200, 201]
         then (Inr ip_addresses, w1\<lparr>logged := logged w1 @ [(INFO, ''Registered IP(s):{} with firewall {}'')]\<rparr>)
         else (Inr [], w1\<lparr>logged := logged w1 @ [(INFO, ''Unable to registered IP(s):{} with firewall {}'')]\<rparr>))"

definition unregister_address ::
  "Client \<Rightarrow> firewall \<Rightarrow> string list \<Rightarrow> string \<Rightarrow> world \<Rightarrow> (error + string list) \<times> world" where
  "unregister_address self fw ip_addresses tag w =
     (let command = unregister_command ip_addresses tag;
          w1 = w\<lparr>events := events w @ [UserIdPost (url fw @ ''/api/'') (api_key fw) command]\<rparr>;
          status_code = post_status w1 (url fw)
      in if status_code \<in> set [200, 201]
         then (Inr ip_addresses, w1\<lparr>logged := logged w1 @ [(INFO, ''Unregistered IP(s):{} with firewall {}'')]\<rparr>)
         else (Inr [], w1\<lparr>logged := logged w1 @ [(INFO, ''Unable to unregistered IP(s):{} with firewall {}'')]\<rparr>))"

text \<open>
  Modelled from the spec: the parent class \<open>ThirdPartyInterface\<close> is not among the
  sources; by the spec the interface consists of the nine verbs, so it adds no method
  taking a firewall, addresses and a tag.

  A call \<open>self.attr(firewall, ip_addresses, tag)\<close> looks \<open>attr\<close> up on the client and raises
  \<open>AttributeError\<close> when nothing has that name. Of such methods the class body defines
  \<open>_register_address\<close> and \<open>_unregister_address\<close>.
\<close>

definition lookup_method ::
  "string \<Rightarrow> (Client \<Rightarrow> firewall \<Rightarrow> string list \<Rightarrow> string \<Rightarrow> world \<Rightarrow> (error + string list) \<times> world) option" where
  "lookup_method attr =
     (if attr = ''_register_address'' then Some register_address
      else if attr = ''_unregister_address'' then Some unregister_address
      else None)"

definition call_method ::
  "string \<Rightarrow> Client \<Rightarrow> firewall \<Rightarrow> string list \<Rightarrow> string \<Rightarrow> world \<Rightarrow> (error + string list) \<times> world" where
  "call_method attr self fw ip_addresses tag w =
     (case lookup_method attr of
        None \<Rightarrow> (Inl AttributeError, w)
      | Some m \<Rightarrow> m self fw ip_addresses tag w)"

text \<open>
  The loop \<open>for firewall in self.firewalls: self.attr(firewall, ip_addresses, tag)\<close>. The
  value of each call is dropped; an exception ends the loop.
\<close>

fun for_firewalls ::
  "string \<Rightarrow> Client \<Rightarrow> firewall list \<Rightarrow> string list \<Rightarrow> string \<Rightarrow> world \<Rightarrow> (error + unit) \<times> world" where
  "for_firewalls attr self [] ip_addresses tag w = (Inr (), w)"
| "for_firewalls attr self (fw # fws) ip_addresses tag w =
     (case call_method attr self fw ip_addresses tag w of
        (Inl e, w1) \<Rightarrow> (Inl e, w1)
      | (Inr _, w1) \<Rightarrow> for_firewalls attr self fws ip_addresses tag w1)"

subsection \<open>The verbs of the PAN client\<close>

definition pan_block_host ::
  "Client \<Rightarrow> VectraHost \<Rightarrow> world \<Rightarrow> (error + string list) \<times> world" where
  "pan_block_host self host w =
     (let ip_address = host_ip host
      in case for_firewalls ''_register_address'' self (firewalls self) [ip_address]
                (internal_block_tag self) w of
           (Inl e, w1) \<Rightarrow> (Inl e, w1)
         | (Inr _, w1) \<Rightarrow> (Inr [ip_address], w1))"

definition pan_block_account ::
  "Client \<Rightarrow> 'account \<Rightarrow> world \<Rightarrow> (error + string list) \<times> world" where
  "pan_block_account self account w =
     (Inr [], w\<lparr>logged := logged w @ [(WARNING, ''PAN client does not implement account blocking'')]\<rparr>)"

definition pan_unblock_host ::
  "Client \<Rightarrow> VectraHost \<Rightarrow> world \<Rightarrow> (error + string list) \<times> world" where
  "pan_unblock_host self host w =
     (let ip_addresses = (case host_blocked_elements host (name self) of
                            None \<Rightarrow> [] | Some ips \<Rightarrow> ips);
          w0 = (if length ip_addresses < 1
                then w\<lparr>logged := logged w @ [(ERROR, ''No IP address found for host {}'')]\<rparr>
                else w)
      in case for_firewalls ''_unregister_address'' self (firewalls self) ip_addresses
                (internal_block_tag self) w0 of
           (Inl e, w1) \<Rightarrow> (Inl e, w1)
         | (Inr _, w1) \<Rightarrow> (Inr ip_addresses, w1))"

definition pan_unblock_account ::
  "Client \<Rightarrow> 'account \<Rightarrow> world \<Rightarrow> (error + string list) \<times> world" where
  "pan_unblock_account self account w =
     (Inr [], w\<lparr>logged := logged w @ [(WARNING, ''PAN client does not implement account blocking'')]\<rparr>)"

definition pan_groom_host ::
  "Client \<Rightarrow> VectraHost \<Rightarrow> world \<Rightarrow> (error + string list) \<times> world" where
  "pan_groom_host self host w =
     (Inr [], w\<lparr>logged := logged w @ [(WARNING, ''PAN client does not implement host grooming'')]\<rparr>)"

definition pan_block_detection ::
  "Client \<Rightarrow> VectraDetection \<Rightarrow> world \<Rightarrow> (error + string list) \<times> world" where
  "pan_block_detection self detection w =
     (let ip_addresses = detection_dst_ips detection
      in case for_firewalls ''register_address'' self (firewalls self) ip_addresses
                (external_block_tag self) w of
           (Inl e, w1) \<Rightarrow> (Inl e, w1)
         | (Inr _, w1) \<Rightarrow> (Inr ip_addresses, w1))"

definition pan_unblock_detection ::
  "Client \<Rightarrow> VectraDetection \<Rightarrow> world \<Rightarrow> (error + string list) \<times> world" where
  "pan_unblock_detection self detection w =
     (let ip_addresses = (case detection_blocked_elements detection (name self) of
                            None \<Rightarrow> [] | Some ips \<Rightarrow> ips);
          w0 = (if length ip_addresses < 1
                then w\<lparr>logged := logged w @ [(ERROR, ''No IP address found for Detection ID {}'')]\<rparr>
                else w)
      in case for_firewalls ''unregister_address'' self (firewalls self) ip_addresses
                (external_block_tag self) w0 of
           (Inl e, w1) \<Rightarrow> (Inl e, w1)
         | (Inr _, w1) \<Rightarrow> (Inr ip_addresses, w1))"

definition pan_block_static_dst_ips ::
  "Client \<Rightarrow> VectraStaticIP \<Rightarrow> world \<Rightarrow> (error + string list) \<times> world" where
  "pan_block_static_dst_ips self ips w =
     (let ip_addresses = static_dst_ips ips;
          w0 = w\<lparr>logged := logged w @ [(INFO, ''Received static IPs: {} for PAN to block'')]\<rparr>
      in case for_firewalls ''register_address'' self (firewalls self) ip_addresses
                (external_block_tag self) w0 of
           (Inl e, w1) \<Rightarrow> (Inl e, w1)
         | (Inr _, w1) \<Rightarrow> (Inr ip_addresses, w1))"

definition pan_unblock_static_dst_ips ::
  "Client \<Rightarrow> VectraStaticIP \<Rightarrow> world \<Rightarrow> (error + string list) \<times> world" where
  "pan_unblock_static_dst_ips self ips w =
     (let ip_addresses = static_dst_ips ips;
          w0 = w\<lparr>logged := logged w @ [(INFO, ''Received IPs: {} for PAN to unblock'')]\<rparr>;
          w0 = (if length ip_addresses < 1
                then w0\<lparr>logged := logged w0 @ [(ERROR, ''No IP addresses supplied for static destination unblock'')]\<rparr>
                else w0)
      in case for_firewalls ''unregister_address'' self (firewalls self) ip_addresses
                (external_block_tag self) w0 of
           (Inl e, w1) \<Rightarrow> (Inl e, w1)
         | (Inr _, w1) \<Rightarrow> (Inr ip_addresses, w1))"

subsection \<open>Reading a command\<close>






section \<open>Inputs of the scenarios\<close>

text \<open>
  The firewall of the spec's scenario: one resource holding \<open>10.0.0.1,10.0.0.2\<close>, every
  call answered with success. A PAN client with two endpoints, and worlds in which the
  firewalls answer every user-id POST with status 200 or 500.
\<close>

abbreviation scenario_fw :: sophos_fw where
  "scenario_fw \<equiv>
     \<lparr>iphosts = [Some ''10.0.0.1,10.0.0.2''], http_status = 200, update_code = ''200'',
      requests = [], log = []\<rparr>"

abbreviation host_at :: "string \<Rightarrow> VectraHost" where
  "host_at a \<equiv> \<lparr>host_ip = a, host_name = ''workstation'', host_blocked_elements = Map.empty\<rparr>"

abbreviation two_endpoints :: Client where
  "two_endpoints \<equiv>
     \<lparr>name = ''PAN Client'',
      firewalls = [\<lparr>url = ''https://fw1'', api_key = ''k1''\<rparr>,
                   \<lparr>url = ''https://fw2'', api_key = ''k2''\<rparr>],
      verify = False, internal_block_tag = ''VectraInternal'',
      external_block_tag = ''VectraExternal''\<rparr>"

abbreviation answering :: "nat \<Rightarrow> world" where
  "answering status \<equiv>
     \<lparr>keyring = Map.empty, keyring_locked = False, answers = [],
      keygen_key = (\<lambda>u a b. None), post_status = (\<lambda>u. status), events = [], logged = []\<rparr>"

abbreviation stored_credentials :: world where
  "stored_credentials \<equiv>
     \<lparr>keyring = [(''https://fw1'', ''API_Key'') \<mapsto> ''cached'',
                  (''https://fw1'', ''username'') \<mapsto> ''admin'',
                  (''https://fw1'', ''password'') \<mapsto> ''secret''],
      keyring_locked = False, answers = [],
      keygen_key = (\<lambda>u a b. Some ''fresh''), post_status = (\<lambda>u. 200),
      events = [], logged = []\<rparr>"

abbreviation empty_secret :: world where
  "empty_secret \<equiv>
     \<lparr>keyring = [(''Sophos'', ''Password'') \<mapsto> []], keyring_locked = False,
      answers = [Some ''secret''], keygen_key = (\<lambda>u a b. None), post_status = (\<lambda>u. 200),
      events = [], logged = []\<rparr>"


section \<open>Splitting and joining\<close>

lemma split_sep_not_Nil: "split_sep c s \<noteq> []"
  by (induction s) (auto split: list.splits)

lemma join_split_sep: "join_sep c (split_sep c s) = s"
proof (induction s)
  case Nil
  show ?case by simp
next
  case (Cons a s)
  then show ?case
    using split_sep_not_Nil [of c s]
    by (cases "split_sep c s"; cases "tl (split_sep c s)") (auto split: list.splits)
qed

lemma split_sep_plain: "c \<notin> set x \<Longrightarrow> split_sep c x = [x]"
  by (induction x) auto

lemma split_sep_append: "c \<notin> set x \<Longrightarrow> split_sep c (x @ c # r) = x # split_sep c r"
  by (induction x) auto

lemma split_join_sep:
  "xs \<noteq> [] \<Longrightarrow> \<forall>x\<in>set xs. c \<notin> set x \<Longrightarrow> split_sep c (join_sep c xs) = xs"
proof (induction c xs rule: join_sep.induct)
  case (1 c)
  then show ?case by simp
next
  case (2 c x)
  then show ?case by (simp add: split_sep_plain)
next
  case (3 c x y ys)
  then show ?case by (simp add: split_sep_append)
qed

lemma split_sep_free: "x \<in> set (split_sep c s) \<Longrightarrow> c \<notin> set x"
  by (induction s arbitrary: x) (auto split: list.splits if_splits)

lemma join_sep_snoc_not_Nil: "xs \<noteq> [] \<Longrightarrow> join_sep c (xs @ [y]) \<noteq> []"
  by (induction c xs rule: join_sep.induct) auto

lemma remove1_snoc_fresh: "x \<notin> set xs \<Longrightarrow> remove1 x (xs @ [x]) = xs"
  by (induction xs) auto

section \<open>Firewall-B: fetching and pushing the list\<close>

lemma get_blocked_ips_ok:
  assumes "iphosts fw = Some s # rest" "s \<noteq> []"
    and "\<not> (400 \<le> http_status fw \<and> http_status fw < 600)"
  shows "\<exists>fw1. get_blocked_ips n fw = (Inr (split_sep (CHR '','') s), fw1)
         \<and> iphosts fw1 = iphosts fw \<and> http_status fw1 = http_status fw
         \<and> update_code fw1 = update_code fw \<and> requests fw1 = requests fw @ [GetIPHost n]"
  using assms by (auto simp: get_blocked_ips_def make_api_call_def element_text_def Let_def)

lemma update_blocked_ips_ok:
  assumes "iphosts fw = h # rest" "update_code fw = ''200''"
    and "\<not> (400 \<le> http_status fw \<and> http_status fw < 600)"
  shows "\<exists>fw1. update_blocked_ips n xs fw = (Inr True, fw1)
         \<and> iphosts fw1 = Some (join_sep (CHR '','') xs) # rest
         \<and> http_status fw1 = http_status fw \<and> update_code fw1 = update_code fw
         \<and> requests fw1 = requests fw @ [UpdateIPHost n (join_sep (CHR '','') xs)]"
  using assms by (auto simp: update_blocked_ips_def make_api_call_def Let_def)

text \<open>
  C8: for the Sophos client and an input that the address parser rejects, \<open>block_host\<close> and
  \<open>unblock_host\<close> return the empty list, raise nothing and leave the firewall, the record
  of calls and the log as they were: no fetch and no update is issued.
\<close>

theorem invalid_ip_dropped:
  assumes "\<not> ip_address (host_ip host)"
  shows "sophos_block_host ip_address n host fw = (Inr [], fw)
       \<and> sophos_unblock_host ip_address n host fw = (Inr [], fw)"
  using assms
  by (simp add: sophos_block_host_def sophos_unblock_host_def block_ip_def unblock_ip_def
      validate_ip_address_def)

theorem invalid_ip_dropped_witness:
  "\<not> ipv4_literal (host_ip (host_at ''not-an-ip''))
   \<and> sophos_block_host ipv4_literal ''blocklist'' (host_at ''not-an-ip'') scenario_fw
       = (Inr [], scenario_fw)
   \<and> sophos_unblock_host ipv4_literal ''blocklist'' (host_at ''not-an-ip'') scenario_fw
       = (Inr [], scenario_fw)"
proof -
  have h: "\<not> ipv4_literal (host_ip (host_at ''not-an-ip''))"
    by (simp add: ipv4_literal_def octet_def is_digit_def decimal_def)
  show ?thesis
    using h invalid_ip_dropped
      [of ipv4_literal "host_at ''not-an-ip''" "''blocklist''" scenario_fw]
    by simp
qed

text \<open>
  C1 (amended): for the Sophos client, a valid address that is already in the fetched list
  makes \<open>block_host\<close> push no update, so no duplicate is written, and return the empty
  list: the fetch is the only call issued and the resource is left as it was.
\<close>

theorem block_present_ip_no_push:
  assumes "ip_address (host_ip host)"
    and "get_blocked_ips n fw = (Inr blocked_ips, fw1)"
    and "host_ip host \<in> set blocked_ips"
  shows "sophos_block_host ip_address n host fw = (Inr [], fw1)
       \<and> requests fw1 = requests fw @ [GetIPHost n]
       \<and> iphosts fw1 = iphosts fw"
proof -
  have "sophos_block_host ip_address n host fw = (Inr [], fw1)"
    using assms by (simp add: sophos_block_host_def block_ip_def validate_ip_address_def)
  moreover have "requests fw1 = requests fw @ [GetIPHost n] \<and> iphosts fw1 = iphosts fw"
    using assms(2)
    by (auto simp: get_blocked_ips_def make_api_call_def Let_def
        split: if_splits list.splits option.splits)
  ultimately show ?thesis by simp
qed

theorem block_present_ip_no_push_witness:
  "ipv4_literal (host_ip (host_at ''10.0.0.1''))
   \<and> host_ip (host_at ''10.0.0.1'') \<in> set [''10.0.0.1'', ''10.0.0.2'']
   \<and> fst (get_blocked_ips ''blocklist'' scenario_fw) = Inr [''10.0.0.1'', ''10.0.0.2'']
   \<and> sophos_block_host ipv4_literal ''blocklist'' (host_at ''10.0.0.1'') scenario_fw
       = (Inr [], snd (get_blocked_ips ''blocklist'' scenario_fw))
   \<and> requests (snd (get_blocked_ips ''blocklist'' scenario_fw)) = [GetIPHost ''blocklist'']
   \<and> iphosts (snd (get_blocked_ips ''blocklist'' scenario_fw)) = [Some ''10.0.0.1,10.0.0.2'']"
proof -
  have v: "ipv4_literal (host_ip (host_at ''10.0.0.1''))"
    by (simp add: ipv4_literal_def octet_def is_digit_def decimal_def)
  have f: "fst (get_blocked_ips ''blocklist'' scenario_fw) = Inr [''10.0.0.1'', ''10.0.0.2'']"
    by (simp add: get_blocked_ips_def make_api_call_def element_text_def Let_def)
  then have g: "get_blocked_ips ''blocklist'' scenario_fw
      = (Inr [''10.0.0.1'', ''10.0.0.2''], snd (get_blocked_ips ''blocklist'' scenario_fw))"
    by (metis prod.collapse)
  have m: "host_ip (host_at ''10.0.0.1'') \<in> set [''10.0.0.1'', ''10.0.0.2'']"
    by simp
  show ?thesis
    using v f m g block_present_ip_no_push
      [where ip_address = ipv4_literal and host = "host_at ''10.0.0.1''" and n = "''blocklist''"
         and fw = scenario_fw and blocked_ips = "[''10.0.0.1'', ''10.0.0.2'']"
         and ?fw1.0 = "snd (get_blocked_ips ''blocklist'' scenario_fw)"]
    by simp
qed

theorem block_present_ip_returns_empty:
  "ipv4_literal ''10.0.0.1''
   \<and> fst (get_blocked_ips ''blocklist'' scenario_fw) = Inr [''10.0.0.1'', ''10.0.0.2'']
   \<and> fst (sophos_block_host ipv4_literal ''blocklist'' (host_at ''10.0.0.1'') scenario_fw)
       = Inr []"
  by (simp add: sophos_block_host_def block_ip_def validate_ip_address_def
      get_blocked_ips_def make_api_call_def element_text_def Let_def
      ipv4_literal_def octet_def is_digit_def decimal_def)

text \<open>
  C9: in the scenario of a resource holding \<open>10.0.0.1,10.0.0.2\<close>, \<open>block_host\<close> with the
  valid address \<open>10.0.0.3\<close> issues the fetch and then one push whose address field is
  \<open>10.0.0.1,10.0.0.2,10.0.0.3\<close>, and returns \<open>["10.0.0.3"]\<close> when the push succeeds.
\<close>

theorem block_host_appends_new_ip:
  assumes "ip_address ''10.0.0.3''"
    and "host_ip host = ''10.0.0.3''"
    and "iphosts fw = Some ''10.0.0.1,10.0.0.2'' # rest"
    and "\<not> (400 \<le> http_status fw \<and> http_status fw < 600)"
    and "update_code fw = ''200''"
  shows "fst (sophos_block_host ip_address n host fw) = Inr [''10.0.0.3'']
       \<and> requests (snd (sophos_block_host ip_address n host fw))
           = requests fw @ [GetIPHost n, UpdateIPHost n ''10.0.0.1,10.0.0.2,10.0.0.3'']"
  using assms
  by (simp add: sophos_block_host_def block_ip_def validate_ip_address_def
      get_blocked_ips_def update_blocked_ips_def make_api_call_def element_text_def Let_def)

theorem block_host_appends_new_ip_witness:
  "ipv4_literal ''10.0.0.3''
   \<and> fst (sophos_block_host ipv4_literal ''blocklist'' (host_at ''10.0.0.3'') scenario_fw)
       = Inr [''10.0.0.3'']
   \<and> requests (snd (sophos_block_host ipv4_literal ''blocklist'' (host_at ''10.0.0.3'') scenario_fw))
       = [GetIPHost ''blocklist'', UpdateIPHost ''blocklist'' ''10.0.0.1,10.0.0.2,10.0.0.3'']"
proof -
  have v: "ipv4_literal ''10.0.0.3''"
    by (simp add: ipv4_literal_def octet_def is_digit_def decimal_def)
  have h: "host_ip (host_at ''10.0.0.3'') = ''10.0.0.3''"
    by simp
  have r: "iphosts scenario_fw = Some ''10.0.0.1,10.0.0.2'' # []"
    by simp
  have s: "\<not> (400 \<le> http_status scenario_fw \<and> http_status scenario_fw < 600)"
    by simp
  have c: "update_code scenario_fw = ''200''"
    by simp
  show ?thesis
    using v h r s c block_host_appends_new_ip
      [where ip_address = ipv4_literal and host = "host_at ''10.0.0.3''" and fw = scenario_fw
         and rest = "[]" and n = "''blocklist''"]
    by simp
qed

text \<open>
  C4 (amended): for the Sophos client, a valid address that contains no comma and is not
  yet in the resource's list, and a firewall that answers every call with success,
  \<open>block_host\<close> followed by \<open>unblock_host\<close> for the same host leaves the resource with
  the contents it had before; when the list is not empty both calls return the address.
\<close>

theorem block_unblock_restores_fresh_ip:
  assumes valid: "ip_address (host_ip host)"
    and comma: "CHR '','' \<notin> set (host_ip host)"
    and res: "iphosts fw = Some s # rest"
    and fresh: "host_ip host \<notin> set (split_sep (CHR '','') s)"
    and http: "\<not> (400 \<le> http_status fw \<and> http_status fw < 600)"
    and code: "update_code fw = ''200''"
  shows "iphosts (snd (sophos_unblock_host ip_address n host
                        (snd (sophos_block_host ip_address n host fw)))) = iphosts fw
       \<and> (s \<noteq> [] \<longrightarrow>
            fst (sophos_block_host ip_address n host fw) = Inr [host_ip host]
          \<and> fst (sophos_unblock_host ip_address n host
                    (snd (sophos_block_host ip_address n host fw))) = Inr [host_ip host])"
proof (cases "s = []")
  case True
  have b: "iphosts (snd (block_ip ip_address n (host_ip host) fw)) = iphosts fw"
    using True res http valid
    by (simp add: block_ip_def validate_ip_address_def get_blocked_ips_def make_api_call_def
        element_text_def Let_def)
  have "\<And>fw'. iphosts fw' = Some s # rest \<Longrightarrow>
      iphosts (snd (unblock_ip ip_address n (host_ip host) fw')) = iphosts fw'"
    using True valid
    by (simp add: unblock_ip_def validate_ip_address_def get_blocked_ips_def make_api_call_def
        element_text_def Let_def)
  with b res True show ?thesis
    by (simp add: sophos_block_host_def sophos_unblock_host_def)
next
  case False
  let ?ip = "host_ip host"
  let ?xs = "split_sep (CHR '','') s"
  obtain fw1 where g1: "get_blocked_ips n fw = (Inr ?xs, fw1)"
    and f1: "iphosts fw1 = iphosts fw" "http_status fw1 = http_status fw"
      "update_code fw1 = update_code fw"
    using get_blocked_ips_ok [OF res False http] by blast
  obtain fw2 where u2: "update_blocked_ips n (?xs @ [?ip]) fw1 = (Inr True, fw2)"
    and f2: "iphosts fw2 = Some (join_sep (CHR '','') (?xs @ [?ip])) # rest"
      "http_status fw2 = http_status fw1" "update_code fw2 = update_code fw1"
    using update_blocked_ips_ok [of fw1 "Some s" rest n "?xs @ [?ip]"] f1 res code http by auto
  have blk: "block_ip ip_address n ?ip fw = (Inr [?ip], fw2)"
    using valid fresh g1 u2 by (simp add: block_ip_def validate_ip_address_def)
  have ne: "join_sep (CHR '','') (?xs @ [?ip]) \<noteq> []"
    by (rule join_sep_snoc_not_Nil) (rule split_sep_not_Nil)
  have rt: "split_sep (CHR '','') (join_sep (CHR '','') (?xs @ [?ip])) = ?xs @ [?ip]"
    by (rule split_join_sep) (use comma split_sep_free in auto)
  obtain fw3 where g3: "get_blocked_ips n fw2 = (Inr (?xs @ [?ip]), fw3)"
    and f3: "iphosts fw3 = iphosts fw2" "http_status fw3 = http_status fw2"
      "update_code fw3 = update_code fw2"
    using get_blocked_ips_ok [OF f2(1) ne, of n] f2 f1 http rt by auto
  obtain fw4 where u4: "update_blocked_ips n ?xs fw3 = (Inr True, fw4)"
    and f4: "iphosts fw4 = Some (join_sep (CHR '','') ?xs) # rest"
    using update_blocked_ips_ok [of fw3 _ rest n ?xs] f3 f2 f1 code http by auto
  have unb: "unblock_ip ip_address n ?ip fw2 = (Inr [?ip], fw4)"
    using valid g3 u4 fresh
    by (simp add: unblock_ip_def validate_ip_address_def remove1_snoc_fresh)
  show ?thesis
    using blk unb f4 res
    by (simp add: join_split_sep sophos_block_host_def sophos_unblock_host_def)
qed

theorem block_unblock_restores_fresh_ip_witness:
  "ipv4_literal (host_ip (host_at ''10.0.0.3''))
   \<and> CHR '','' \<notin> set (host_ip (host_at ''10.0.0.3''))
   \<and> host_ip (host_at ''10.0.0.3'') \<notin> set (split_sep (CHR '','') ''10.0.0.1,10.0.0.2'')
   \<and> iphosts (snd (sophos_unblock_host ipv4_literal ''blocklist'' (host_at ''10.0.0.3'')
                 (snd (sophos_block_host ipv4_literal ''blocklist'' (host_at ''10.0.0.3'')
                        scenario_fw))))
       = [Some ''10.0.0.1,10.0.0.2'']
   \<and> fst (sophos_block_host ipv4_literal ''blocklist'' (host_at ''10.0.0.3'') scenario_fw)
       = Inr [''10.0.0.3'']
   \<and> fst (sophos_unblock_host ipv4_literal ''blocklist'' (host_at ''10.0.0.3'')
            (snd (sophos_block_host ipv4_literal ''blocklist'' (host_at ''10.0.0.3'')
                   scenario_fw)))
       = Inr [''10.0.0.3'']"
proof -
  have v: "ipv4_literal (host_ip (host_at ''10.0.0.3''))"
    by (simp add: ipv4_literal_def octet_def is_digit_def decimal_def)
  have k: "CHR '','' \<notin> set (host_ip (host_at ''10.0.0.3''))"
    by simp
  have r: "iphosts scenario_fw = Some ''10.0.0.1,10.0.0.2'' # []"
    by simp
  have f: "host_ip (host_at ''10.0.0.3'') \<notin> set (split_sep (CHR '','') ''10.0.0.1,10.0.0.2'')"
    by simp
  have s: "\<not> (400 \<le> http_status scenario_fw \<and> http_status scenario_fw < 600)"
    by simp
  have c: "update_code scenario_fw = ''200''"
    by simp
  have n: "''10.0.0.1,10.0.0.2'' \<noteq> []"
    by simp
  show ?thesis
    using v k f n block_unblock_restores_fresh_ip
      [where ip_address = ipv4_literal and host = "host_at ''10.0.0.3''" and fw = scenario_fw
         and s = "''10.0.0.1,10.0.0.2''" and rest = "[]" and n = "''blocklist''", OF v k r f s c]
    by simp
qed

theorem block_unblock_removes_present_ip:
  "ipv4_literal ''10.0.0.1''
   \<and> fst (sophos_block_host ipv4_literal ''blocklist'' (host_at ''10.0.0.1'') scenario_fw)
       = Inr []
   \<and> fst (sophos_unblock_host ipv4_literal ''blocklist'' (host_at ''10.0.0.1'')
            (snd (sophos_block_host ipv4_literal ''blocklist'' (host_at ''10.0.0.1'')
                   scenario_fw)))
       = Inr [''10.0.0.1'']
   \<and> iphosts scenario_fw = [Some ''10.0.0.1,10.0.0.2'']
   \<and> iphosts (snd (sophos_unblock_host ipv4_literal ''blocklist'' (host_at ''10.0.0.1'')
                 (snd (sophos_block_host ipv4_literal ''blocklist'' (host_at ''10.0.0.1'')
                        scenario_fw))))
       = [Some ''10.0.0.2'']"
  by (simp add: sophos_block_host_def sophos_unblock_host_def block_ip_def unblock_ip_def
      validate_ip_address_def get_blocked_ips_def update_blocked_ips_def make_api_call_def
      element_text_def Let_def ipv4_literal_def octet_def is_digit_def decimal_def)

section \<open>Firewall-A: the verbs and the register call\<close>

lemma for_firewalls_register_ok:
  "fst (for_firewalls ''_register_address'' self fws ips tag w) = Inr ()"
proof (induction fws arbitrary: w)
  case Nil
  show ?case by simp
next
  case (Cons fw fws)
  obtain r w1 where c: "call_method ''_register_address'' self fw ips tag w = (r, w1)"
    by (cases "call_method ''_register_address'' self fw ips tag w")
  then have "\<exists>v. r = Inr v"
    by (auto simp: call_method_def lookup_method_def register_address_def Let_def
        split: if_splits)
  with c Cons show ?case by auto
qed

lemma for_firewalls_unknown_method:
  "lookup_method attr = None \<Longrightarrow> fws \<noteq> [] \<Longrightarrow>
   for_firewalls attr self fws ips tag w = (Inl AttributeError, w)"
  by (cases fws) (simp_all add: call_method_def)

lemma block_host_result: "fst (pan_block_host self host w) = Inr [host_ip host]"
  using for_firewalls_register_ok
    [of self "firewalls self" "[host_ip host]" "internal_block_tag self" w]
  by (auto simp: pan_block_host_def Let_def split: prod.splits sum.splits)

lemma register_address_failure:
  "post_status w (url fw) \<noteq> 200 \<Longrightarrow> post_status w (url fw) \<noteq> 201 \<Longrightarrow>
   fst (register_address self fw ip_addresses tag w) = Inr []"
  by (simp add: register_address_def Let_def)

lemma sophos_refused_push:
  assumes "ip_address (host_ip host)"
    and "get_blocked_ips n fw = (Inr blocked_ips, fw1)"
    and "host_ip host \<notin> set blocked_ips"
    and "\<not> (400 \<le> http_status fw1 \<and> http_status fw1 < 600)"
    and "update_code fw1 \<noteq> ''200''"
  shows "fst (sophos_block_host ip_address n host fw) = Inr []"
  using assms
  by (simp add: sophos_block_host_def block_ip_def validate_ip_address_def
      update_blocked_ips_def make_api_call_def Let_def)

text \<open>
  C5: the claim is that a verb returns the addresses acted upon and the empty list on
  failure, so that \<open>block_host\<close> of the PAN client returns the empty list when the register
  call is answered with a failure status. The helper \<open>_register_address\<close> does return the
  empty list then, but \<open>block_host\<close> drops what the helper returns: with both endpoints
  answering 500 the helper gives \<open>[]\<close> and the verb gives \<open>["10.0.0.3"]\<close>. The Sophos
  \<open>block_host\<close>, whose push is refused with code 500, returns \<open>[]\<close>.
\<close>

theorem block_host_returns_ip_on_failure:
  "post_status (answering 500) ''https://fw1'' = 500
   \<and> post_status (answering 500) ''https://fw2'' = 500
   \<and> fst (register_address two_endpoints \<lparr>url = ''https://fw1'', api_key = ''k1''\<rparr>
            [''10.0.0.3''] ''VectraInternal'' (answering 500)) = Inr []
   \<and> fst (register_address two_endpoints \<lparr>url = ''https://fw2'', api_key = ''k2''\<rparr>
            [''10.0.0.3''] ''VectraInternal'' (answering 500)) = Inr []
   \<and> fst (pan_block_host two_endpoints (host_at ''10.0.0.3'') (answering 500))
       = Inr [''10.0.0.3'']
   \<and> fst (sophos_block_host ipv4_literal ''blocklist'' (host_at ''10.0.0.3'')
            (scenario_fw\<lparr>update_code := ''500''\<rparr>)) = Inr []"
  by (simp add: pan_block_host_def call_method_def lookup_method_def register_address_def
      sophos_block_host_def block_ip_def validate_ip_address_def get_blocked_ips_def
      update_blocked_ips_def make_api_call_def element_text_def Let_def
      ipv4_literal_def octet_def is_digit_def decimal_def)












text \<open>
  C10: the unsupported verbs (account, detection and static-IP verbs of the Sophos client;
  account verbs and \<open>groom_host\<close> of the PAN client) return the empty list and issue no
  HTTP call, for every input.
\<close>

theorem unsupported_verbs_no_call:
  "fst (sophos_block_account account fw) = Inr []
   \<and> requests (snd (sophos_block_account account fw)) = requests fw
   \<and> fst (sophos_unblock_account account fw) = Inr []
   \<and> requests (snd (sophos_unblock_account account fw)) = requests fw
   \<and> fst (sophos_block_detection detection fw) = Inr []
   \<and> requests (snd (sophos_block_detection detection fw)) = requests fw
   \<and> fst (sophos_unblock_detection detection fw) = Inr []
   \<and> requests (snd (sophos_unblock_detection detection fw)) = requests fw
   \<and> fst (sophos_block_static_dst_ips ips fw) = Inr []
   \<and> requests (snd (sophos_block_static_dst_ips ips fw)) = requests fw
   \<and> fst (sophos_unblock_static_dst_ips ips fw) = Inr []
   \<and> requests (snd (sophos_unblock_static_dst_ips ips fw)) = requests fw
   \<and> fst (pan_block_account self account w) = Inr []
   \<and> events (snd (pan_block_account self account w)) = events w
   \<and> fst (pan_unblock_account self account w) = Inr []
   \<and> events (snd (pan_unblock_account self account w)) = events w
   \<and> fst (pan_groom_host self host w) = Inr []
   \<and> events (snd (pan_groom_host self host w)) = events w"
  by (simp add: sophos_block_account_def sophos_unblock_account_def sophos_block_detection_def
      sophos_unblock_detection_def sophos_block_static_dst_ips_def
      sophos_unblock_static_dst_ips_def pan_block_account_def pan_unblock_account_def
      pan_groom_host_def)

text \<open>
  C2: the claim is that \<open>block_detection\<close>, \<open>unblock_detection\<close>, \<open>block_static_dst_ips\<close>
  and \<open>unblock_static_dst_ips\<close> of the PAN client register or unregister the addresses on
  every endpoint and raise nothing. The four verbs call \<open>self.register_address\<close> and
  \<open>self.unregister_address\<close>, names the client does not have: with two endpoints and the
  address \<open>1.2.3.4\<close> each of them raises \<open>AttributeError\<close> before any POST.
\<close>

theorem detection_verbs_raise_attribute_error:
  "fst (pan_block_detection two_endpoints
         \<lparr>detection_id = 7, detection_dst_ips = [''1.2.3.4''],
          detection_blocked_elements = Map.empty\<rparr> (answering 200)) = Inl AttributeError
   \<and> events (snd (pan_block_detection two_endpoints
         \<lparr>detection_id = 7, detection_dst_ips = [''1.2.3.4''],
          detection_blocked_elements = Map.empty\<rparr> (answering 200))) = []
   \<and> fst (pan_unblock_detection two_endpoints
         \<lparr>detection_id = 7, detection_dst_ips = [''1.2.3.4''],
          detection_blocked_elements = [''PAN Client'' \<mapsto> [''1.2.3.4'']]\<rparr> (answering 200))
       = Inl AttributeError
   \<and> events (snd (pan_unblock_detection two_endpoints
         \<lparr>detection_id = 7, detection_dst_ips = [''1.2.3.4''],
          detection_blocked_elements = [''PAN Client'' \<mapsto> [''1.2.3.4'']]\<rparr> (answering 200)))
       = []
   \<and> fst (pan_block_static_dst_ips two_endpoints \<lparr>static_dst_ips = [''1.2.3.4'']\<rparr>
            (answering 200)) = Inl AttributeError
   \<and> events (snd (pan_block_static_dst_ips two_endpoints \<lparr>static_dst_ips = [''1.2.3.4'']\<rparr>
            (answering 200))) = []
   \<and> fst (pan_unblock_static_dst_ips two_endpoints \<lparr>static_dst_ips = [''1.2.3.4'']\<rparr>
            (answering 200)) = Inl AttributeError
   \<and> events (snd (pan_unblock_static_dst_ips two_endpoints \<lparr>static_dst_ips = [''1.2.3.4'']\<rparr>
            (answering 200))) = []"
  by (simp add: pan_block_detection_def pan_unblock_detection_def pan_block_static_dst_ips_def
      pan_unblock_static_dst_ips_def call_method_def lookup_method_def Let_def)

text \<open>
  The same for every client with at least one endpoint: the first iteration of the loop
  raises.
\<close>

lemma block_detection_raises:
  "firewalls self \<noteq> [] \<Longrightarrow> pan_block_detection self detection w = (Inl AttributeError, w)"
  by (simp add: pan_block_detection_def Let_def for_firewalls_unknown_method lookup_method_def)

text \<open>
  By contrast \<open>block_host\<close>, which calls \<open>self._register_address\<close>, issues one POST for
  each endpoint.
\<close>

lemma block_host_two_endpoints:
  "events (snd (pan_block_host two_endpoints (host_at ''1.2.3.4'') (answering 200)))
     = [UserIdPost ''https://fw1/api/'' ''k1'' (register_command [''1.2.3.4''] ''VectraInternal''),
        UserIdPost ''https://fw2/api/'' ''k2'' (register_command [''1.2.3.4''] ''VectraInternal'')]"
  by (simp add: pan_block_host_def call_method_def lookup_method_def register_address_def
      Let_def)

section \<open>Credentials and the session token\<close>

text \<open>
  C3: the claim is that with a stored token and no forced refresh the construction returns
  the stored token without a keygen login and without a prompt. \<open>_get_api_token\<close> reads the
  stored token but posts the keygen login outside the branch: handed the pair
  \<open>(False, False)\<close>, which is true as a condition, it logs in again with the stored user
  and password and returns the new key in place of the stored one; handed the boolean
  \<open>False\<close> it raises \<open>UnboundLocalError\<close>. The construction fails or logs in likewise.
\<close>

theorem get_api_token_ignores_stored_token:
  "get_keyring_password ''https://fw1'' ''API_Key'' stored_credentials = Some ''cached''
   \<and> fst (get_api_token ''https://fw1'' (Pair False False) stored_credentials) = Inr ''fresh''
   \<and> events (snd (get_api_token ''https://fw1'' (Pair False False) stored_credentials))
       = [KeygenPost ''https://fw1'' (Some ''admin'') (Some ''secret'')]
   \<and> fst (get_api_token ''https://fw1'' (Flag False) stored_credentials)
       = Inl UnboundLocalError
   \<and> fst (init \<lparr>URLS = [''https://fw1''], VERIFY_SSL = False,
                   INTERNAL_BLOCK_TAG = ''VectraInternal'',
                   EXTERNAL_BLOCK_TAG = ''VectraExternal''\<rparr>
               (Pair False False) stored_credentials)
       = Inr \<lparr>name = ''PAN Client'',
              firewalls = [\<lparr>url = ''https://fw1'', api_key = ''fresh''\<rparr>],
              verify = False, internal_block_tag = ''VectraInternal'',
              external_block_tag = ''VectraExternal''\<rparr>"
  by (simp add: init_def get_api_token_def get_password_def get_keyring_password_def Let_def)

text \<open>
  C6: the claim is that an empty stored secret counts as no credential, so that the
  resolver prompts. \<open>_get_password\<close> tests \<open>password is None\<close> only: with the empty string
  stored and no forced refresh it returns the empty string and does not prompt, although
  an answer is waiting. The wrapper \<open>_get_keyring_password\<close> of the PAN client, on the
  same store, gives \<open>None\<close>.
\<close>

theorem get_password_returns_empty_secret:
  "keyring empty_secret (''Sophos'', ''Password'') = Some []
   \<and> get_password ''Sophos'' ''Password'' (Pair False False) empty_secret
       = (Inr (Some []), empty_secret)
   \<and> get_keyring_password ''Sophos'' ''Password'' empty_secret = None"
  by (simp add: get_password_def get_keyring_password_def Let_def)

text \<open>An absent secret does make the resolver prompt, whatever the operator answers.\<close>

lemma get_password_absent_prompts:
  "keyring w (system, key) = None \<Longrightarrow>
   events (snd (get_password system key (Pair False False) w)) = events w @ [Prompt system key]"
  by (auto simp: get_password_def ask_def Let_def split: list.splits)

end
